theory Spec2Isabelle
  imports Main
begin

section \<open>Python values used by the parser\<close>

text \<open>
  Strings are lists of 8-bit characters. A \<open>bytes\<close> value is the list of its bytes, and
  a \<open>str\<close> is represented by its UTF-8 encoding, so that \<open>.decode('utf8')\<close> and
  \<open>bytes(s, 'utf8')\<close> leave the list as it is. The quote, backslash, \<open>@\<close> and \<open>:\<close>
  characters the decoders look for are ASCII, and no byte of a multi-byte UTF-8 sequence
  is ASCII, so stripping and replacing them by byte is what Python does by code point.
  Where Python counts or classifies code points (slicing a \<open>str\<close>, \<open>strip()\<close> without
  argument), the operation is defined on the encoding, code point by code point. Node
  type tags are the grammar's ASCII identifiers; \<open>casefold\<close> lowers the ASCII letters.
\<close>

datatype exn =
    ValueError string
  | AttributeError string
  | IndexError string
  | TypeError string
  | EngineError string

fun exn_str :: "exn \<Rightarrow> string" where
  "exn_str (ValueError m) = m"
| "exn_str (AttributeError m) = m"
| "exn_str (IndexError m) = m"
| "exn_str (TypeError m) = m"
| "exn_str (EngineError m) = m"

definition casefold_char :: "char \<Rightarrow> char" where
  "casefold_char c =
     (case map_of (zip ''ABCDEFGHIJKLMNOPQRSTUVWXYZ'' ''abcdefghijklmnopqrstuvwxyz'') c of
        Some l \<Rightarrow> l
      | None \<Rightarrow> c)"

definition casefold :: "string \<Rightarrow> string" where
  "casefold s = map casefold_char s"

definition endswith :: "string \<Rightarrow> string \<Rightarrow> bool" where
  "endswith s suffix = (length suffix \<le> length s \<and> drop (length s - length suffix) s = suffix)"

definition startswith :: "string \<Rightarrow> string \<Rightarrow> bool" where
  "startswith s pre = (take (length pre) s = pre)"

definition removeprefix :: "string \<Rightarrow> string \<Rightarrow> string" where
  "removeprefix s pre = (if startswith s pre then drop (length pre) s else s)"

definition removesuffix :: "string \<Rightarrow> string \<Rightarrow> string" where
  "removesuffix s suffix =
     (if suffix \<noteq> [] \<and> endswith s suffix then take (length s - length suffix) s else s)"

text \<open>\<open>s.strip(chars)\<close>: every leading and every trailing character that occurs in
  \<open>chars\<close> is removed, however many there are.\<close>

definition strip_chars :: "string \<Rightarrow> string \<Rightarrow> string" where
  "strip_chars s chars =
     rev (dropWhile (\<lambda>c. c \<in> set chars) (rev (dropWhile (\<lambda>c. c \<in> set chars) s)))"

text \<open>\<open>s.strip()\<close> on a \<open>str\<close> removes the leading and trailing white-space code
  points: U+0009 to U+000D, U+001C to U+0020, U+0085, U+00A0, U+1680, U+2000 to U+200A,
  U+2028, U+2029, U+202F, U+205F and U+3000, listed here in their UTF-8 encoding.\<close>

definition unicode_spaces :: "string list" where
  "unicode_spaces =
     map (\<lambda>c. [c]) [CHR 0x09, CHR 0x0A, CHR 0x0B, CHR 0x0C, CHR 0x0D,
                     CHR 0x1C, CHR 0x1D, CHR 0x1E, CHR 0x1F, CHR 0x20]
     @ [[CHR 0xC2, CHR 0x85], [CHR 0xC2, CHR 0xA0], [CHR 0xE1, CHR 0x9A, CHR 0x80]]
     @ map (\<lambda>c. [CHR 0xE2, CHR 0x80, c])
         [CHR 0x80, CHR 0x81, CHR 0x82, CHR 0x83, CHR 0x84, CHR 0x85, CHR 0x86, CHR 0x87,
          CHR 0x88, CHR 0x89, CHR 0x8A, CHR 0xA8, CHR 0xA9, CHR 0xAF]
     @ [[CHR 0xE2, CHR 0x81, CHR 0x9F], [CHR 0xE3, CHR 0x80, CHR 0x80]]"

definition space_at_start :: "string \<Rightarrow> string option" where
  "space_at_start s = find (\<lambda>w. startswith s w) unicode_spaces"

definition space_at_end :: "string \<Rightarrow> string option" where
  "space_at_end s = find (\<lambda>w. endswith s w) unicode_spaces"

lemma unicode_spaces_nonempty: "w \<in> set unicode_spaces \<Longrightarrow> w \<noteq> []"
  by (auto simp: unicode_spaces_def)

lemma space_at_start_shorter:
  "space_at_start s = Some w \<Longrightarrow> length (drop (length w) s) < length s"
proof -
  assume "space_at_start s = Some w"
  then have w: "w \<in> set unicode_spaces" and p: "take (length w) s = w"
    by (auto simp: space_at_start_def startswith_def find_Some_iff)
  from w have "w \<noteq> []" by (rule unicode_spaces_nonempty)
  with p have "s \<noteq> []" by auto
  with \<open>w \<noteq> []\<close> show ?thesis by simp
qed

lemma space_at_end_shorter:
  "space_at_end s = Some w \<Longrightarrow> length (take (length s - length w) s) < length s"
proof -
  assume "space_at_end s = Some w"
  then have w: "w \<in> set unicode_spaces" and p: "length w \<le> length s"
    by (auto simp: space_at_end_def endswith_def find_Some_iff)
  from w have "w \<noteq> []" by (rule unicode_spaces_nonempty)
  with p show ?thesis by (cases s) auto
qed

function str_lstrip :: "string \<Rightarrow> string" where
  "str_lstrip s =
     (case space_at_start s of
        Some w \<Rightarrow> str_lstrip (drop (length w) s)
      | None \<Rightarrow> s)"
  by pat_completeness auto
termination
  by (relation "measure length") (auto dest: space_at_start_shorter)

function str_rstrip :: "string \<Rightarrow> string" where
  "str_rstrip s =
     (case space_at_end s of
        Some w \<Rightarrow> str_rstrip (take (length s - length w) s)
      | None \<Rightarrow> s)"
  by pat_completeness auto
termination
  by (relation "measure length") (auto dest: space_at_end_shorter)

declare str_lstrip.simps [simp del] str_rstrip.simps [simp del]

definition str_strip :: "string \<Rightarrow> string" where
  "str_strip s = str_rstrip (str_lstrip s)"

text \<open>White space as \<open>int()\<close> skips it around a \<open>bytes\<close> literal.\<close>

definition bytes_isspace :: "char \<Rightarrow> bool" where
  "bytes_isspace c = ((of_char c :: nat) \<in> set [9, 10, 11, 12, 13, 32])"

text \<open>\<open>s.replace(old, new)\<close> for a non-empty \<open>old\<close> (the only use in the parser):
  the occurrences are replaced from the left, without overlap.\<close>

fun str_replace :: "string \<Rightarrow> string \<Rightarrow> string \<Rightarrow> string" where
  "str_replace old new [] = []"
| "str_replace old new (c # cs) =
     (if old \<noteq> [] \<and> take (length old) (c # cs) = old
      then new @ str_replace old new (drop (length old - 1) cs)
      else c # str_replace old new cs)"

text \<open>\<open>str(n)\<close> for an integer.\<close>

fun str_nat :: "nat \<Rightarrow> string" where
  "str_nat n =
     (if n < 10 then [''0123456789'' ! n]
      else str_nat (n div 10) @ [''0123456789'' ! (n mod 10)])"

declare str_nat.simps [simp del]

definition str_int :: "int \<Rightarrow> string" where
  "str_int i = (if i < 0 then ''-'' @ str_nat (nat (- i)) else str_nat (nat i))"

text \<open>\<open>repr\<close> of a \<open>str\<close> and of a \<open>bytes\<close> value, as they appear in the messages of
  built-in exceptions. The quoting is Python's for a text that holds no quote, no
  backslash and no unprintable character; no property below reads further into these
  messages.\<close>

definition str_repr :: "string \<Rightarrow> string" where
  "str_repr s = [CHR 0x27] @ s @ [CHR 0x27]"

definition bytes_repr :: "string \<Rightarrow> string" where
  "bytes_repr s = ''b'' @ [CHR 0x27] @ s @ [CHR 0x27]"

text \<open>\<open>int(b)\<close> for a \<open>bytes\<close> value: optional white space around, an optional sign,
  then decimal digits, single underscores allowed between digits. A literal of more
  than 4300 digits (the default of \<open>sys.int_max_str_digits\<close>) is refused.\<close>

definition is_digit :: "char \<Rightarrow> bool" where
  "is_digit c = (c \<in> set ''0123456789'')"

definition digit_val :: "char \<Rightarrow> nat" where
  "digit_val c = (of_char c :: nat) - 48"

fun digits_ok :: "string \<Rightarrow> bool" where
  "digits_ok [] = False"
| "digits_ok [c] = is_digit c"
| "digits_ok (c # d # cs) =
     (is_digit c \<and> (if d = CHR ''_'' then digits_ok cs else digits_ok (d # cs)))"

definition digits_val :: "string \<Rightarrow> nat" where
  "digits_val s = foldl (\<lambda>acc c. 10 * acc + digit_val c) 0 (filter is_digit s)"

definition int_max_str_digits :: nat where
  "int_max_str_digits = 4300"

definition invalid_literal :: "string \<Rightarrow> exn" where
  "invalid_literal b = ValueError (''invalid literal for int() with base 10: '' @ bytes_repr b)"

definition exceeds_limit :: "nat \<Rightarrow> exn" where
  "exceeds_limit n =
     ValueError (''Exceeds the limit ('' @ str_nat int_max_str_digits
                 @ '' digits) for integer string conversion: value has '' @ str_nat n
                 @ '' digits; use sys.set_int_max_str_digits() to increase the limit'')"

definition int_of_bytes :: "string \<Rightarrow> exn + int" where
  "int_of_bytes b =
     (let s = dropWhile bytes_isspace b;
          (neg, ds) = (case s of
                         c # cs \<Rightarrow> if c = CHR ''-'' then (True, cs)
                                   else if c = CHR ''+'' then (False, cs)
                                   else (False, s)
                       | [] \<Rightarrow> (False, s));
          run = takeWhile (\<lambda>c. is_digit c \<or> c = CHR ''_'') ds;
          rest = dropWhile (\<lambda>c. is_digit c \<or> c = CHR ''_'') ds;
          n = length (filter is_digit run)
      in if \<not> digits_ok run then Inl (invalid_literal b)
         else if int_max_str_digits < n then Inl (exceeds_limit n)
         else if dropWhile bytes_isspace rest \<noteq> [] then Inl (invalid_literal b)
         else Inr (if neg then - int (digits_val run) else int (digits_val run)))"

text \<open>\<open>b.strip(chars)\<close> where \<open>b\<close> is a \<open>bytes\<close> value and \<open>chars\<close> is a \<open>str\<close>:
  Python refuses the mixed types before looking at either argument.\<close>

definition bytes_strip_with_str :: "string \<Rightarrow> string \<Rightarrow> exn + string" where
  "bytes_strip_with_str b chars =
     Inl (TypeError (''a bytes-like object is required, not '' @ str_repr ''str''))"

section \<open>Syntax-tree nodes of the parsing engine\<close>

text \<open>
  A node as the engine exposes it: its type tag, whether it is a named node, the
  \<open>has_error\<close> flag, the start point (row, column), the byte range, the node's text (a
  \<open>bytes\<close> value: the decoders call \<open>.decode('utf8')\<close> on it) and the ordered children.
  \<open>named_children\<close> is the sublist of named children, \<open>child_at n i\<close> is
  \<open>n.child(i)\<close>, \<open>None\<close> out of range, and a node's parent is the node whose child
  list it stands in.
\<close>

datatype node =
  Node (ntype: string) (is_named: bool) (has_error: bool) (start_point: "nat \<times> nat")
       (start_byte: nat) (end_byte: nat) (ntext: string) (children: "node list")

definition named_children :: "node \<Rightarrow> node list" where
  "named_children n = filter is_named (children n)"

definition child_at :: "node \<Rightarrow> nat \<Rightarrow> node option" where
  "child_at n i = (if i < length (children n) then Some (children n ! i) else None)"

text \<open>\<open>xs[i]\<close> on a Python list, for \<open>i \<ge> 0\<close>.\<close>

definition list_index :: "'a list \<Rightarrow> nat \<Rightarrow> exn + 'a" where
  "list_index xs i =
     (if i < length xs then Inr (xs ! i) else Inl (IndexError ''list index out of range''))"

text \<open>Attribute access on a value that may be \<open>None\<close>.\<close>

definition none_has_no :: "string \<Rightarrow> exn" where
  "none_has_no attr =
     AttributeError ([CHR 0x27] @ ''NoneType'' @ [CHR 0x27] @ '' object has no attribute ''
                     @ [CHR 0x27] @ attr @ [CHR 0x27])"

definition attr_of :: "string \<Rightarrow> 'a option \<Rightarrow> exn + 'a" where
  "attr_of attr v = (case v of None \<Rightarrow> Inl (none_has_no attr) | Some x \<Rightarrow> Inr x)"

text \<open>\<open>find_first_by_type\<close> takes one type tag or a list of them.\<close>

datatype type_spec = OneType string | TypeList "string list"

fun find_first_by_type :: "node list \<Rightarrow> type_spec \<Rightarrow> node option" where
  "find_first_by_type nodes (TypeList child_type) =
     find (\<lambda>c. ntype c \<in> set child_type) nodes"
| "find_first_by_type nodes (OneType child_type) =
     find (\<lambda>c. ntype c = child_type) nodes"

section \<open>Region and location model\<close>

datatype BodyOrWhole = BODY | WHOLE

datatype MarkerType = LINE | VARIABLE | FUNCTION | CLASS

datatype RelativePositionType = AT | BEFORE | AFTER | INSIDE

text \<open>The members of a \<open>StrEnum\<close> are their lower-cased names; \<open>str\<close> and \<open>.value\<close>
  of a member give that text.\<close>

fun MarkerType_value :: "MarkerType \<Rightarrow> string" where
  "MarkerType_value LINE = ''line''"
| "MarkerType_value VARIABLE = ''variable''"
| "MarkerType_value FUNCTION = ''function''"
| "MarkerType_value CLASS = ''class''"

fun RelativePositionType_value :: "RelativePositionType \<Rightarrow> string" where
  "RelativePositionType_value AT = ''at''"
| "RelativePositionType_value BEFORE = ''before''"
| "RelativePositionType_value AFTER = ''after''"
| "RelativePositionType_value INSIDE = ''inside''"

text \<open>\<open>MarkerType(text)\<close> and \<open>RelativePositionType(text)\<close>: the member with that
  value, or a \<open>ValueError\<close>.\<close>

definition not_a_valid :: "string \<Rightarrow> string \<Rightarrow> exn" where
  "not_a_valid s enum = ValueError (str_repr s @ '' is not a valid '' @ enum)"

definition MarkerType_of :: "string \<Rightarrow> exn + MarkerType" where
  "MarkerType_of s =
     (case find (\<lambda>m. MarkerType_value m = s) [LINE, VARIABLE, FUNCTION, CLASS] of
        Some m \<Rightarrow> Inr m
      | None \<Rightarrow> Inl (not_a_valid s ''MarkerType''))"

definition RelativePositionType_of :: "string \<Rightarrow> exn + RelativePositionType" where
  "RelativePositionType_of s =
     (case find (\<lambda>q. RelativePositionType_value q = s) [AT, BEFORE, AFTER, INSIDE] of
        Some q \<Rightarrow> Inr q
      | None \<Rightarrow> Inl (not_a_valid s ''RelativePositionType''))"

record Marker =
  mtype :: MarkerType
  mvalue :: string
  moffset :: "int option"

record RelativeMarker = Marker +
  qualifier :: RelativePositionType

text \<open>What \<open>parse_region\<close> can return. The ends of a segment hold whatever
  \<open>parse_region\<close> returned for them.\<close>

datatype Region =
    RBodyOrWhole BodyOrWhole
  | RMarker Marker
  | RRelativeMarker RelativeMarker
  | Segment (seg_start: Region) (seg_end: Region)

definition Marker_str :: "Marker \<Rightarrow> string" where
  "Marker_str m =
     (let result = MarkerType_value (mtype m) @ '' '' @ [CHR 0x27] @ mvalue m @ [CHR 0x27]
      in case moffset m of
           Some off \<Rightarrow> result @ '' at offset '' @ str_int off
         | None \<Rightarrow> result)"

definition RelativeMarker_str :: "RelativeMarker \<Rightarrow> string" where
  "RelativeMarker_str m =
     (let result = Marker_str (Marker.truncate m)
      in case qualifier m of
           AT \<Rightarrow> result
         | q \<Rightarrow> result @ '' ('' @ RelativePositionType_value q @ '')'')"

record WhereClause =
  wfield :: string
  woperator :: string
  wvalue :: string

record SingleFileClause =
  file_path :: string

record IdentifierFromFile = SingleFileClause +
  where_clause :: WhereClause
  identifier_type :: string
  ioffset :: "int option"

datatype FileOrIdentifierWithin =
    SingleFile SingleFileClause
  | Identifier IdentifierFromFile

fun target_file_path :: "FileOrIdentifierWithin \<Rightarrow> string" where
  "target_file_path (SingleFile t) = file_path t"
| "target_file_path (Identifier t) = file_path t"

section \<open>Editing clauses and commands\<close>

datatype EditingAction =
    ReplaceClause Region
  | DeleteClause Region
  | InsertClause (insert_position: Region)
  | MoveClause (move_region: Region) (move_insert_position: Region)
               (to_other_file: "SingleFileClause option") (relative_indentation: "int option")

datatype Command =
    CreateCommand string string "string option"
  | RmFileCommand string string
  | MvFileCommand string string string
  | UpdateCommand string FileOrIdentifierWithin EditingAction "string option"

text \<open>\<open>files_to_change\<close> is declared to return a tuple of strings; what the code puts
  into the tuple is a path or, in one branch, a clause object.\<close>

datatype tuple_item = Path string | Clause SingleFileClause

fun files_to_change :: "Command \<Rightarrow> tuple_item list" where
  "files_to_change (CreateCommand ty fp content) = [Path fp]"
| "files_to_change (RmFileCommand ty fp) = [Path fp]"
| "files_to_change (MvFileCommand ty fp target_path) = [Path fp] @ [Path target_path]"
| "files_to_change (UpdateCommand ty target action content) =
     (let result = [Path (target_file_path target)]
      in case action of
           MoveClause r ip (Some target_file) ri \<Rightarrow> result @ [Clause target_file]
         | _ \<Rightarrow> result)"

section \<open>String and content decoder\<close>

abbreviation squote :: char where "squote \<equiv> CHR 0x27"
abbreviation dquote :: char where "dquote \<equiv> CHR 0x22"
abbreviation backslash :: char where "backslash \<equiv> CHR 0x5C"

text \<open>\<open>parse_string\<close> is also called on the result of \<open>find_first_by_type\<close> without a
  check, so its argument may be \<open>None\<close>; reading \<open>node.type\<close> then raises.\<close>

definition parse_string :: "node option \<Rightarrow> exn + string" where
  "parse_string node_arg =
     (case attr_of ''type'' node_arg of
        Inl e \<Rightarrow> Inl e
      | Inr node0 \<Rightarrow>
          (case (if casefold (ntype node0) = ''string''
                 then list_index (named_children node0) 0 else Inr node0) of
             Inl e \<Rightarrow> Inl e
           | Inr node \<Rightarrow>
               (let text = ntext node; ty = casefold (ntype node)
                in Inr (if ty = ''raw_string'' then strip_chars text [dquote, squote]
                        else if ty = ''single_quoted_string''
                        then strip_chars
                               (str_replace [backslash, dquote] [dquote]
                                  (str_replace [backslash, squote] [squote] text))
                               [dquote, squote]
                        else if ty = ''multi_line_string''
                        then removesuffix
                               (removesuffix
                                  (removeprefix (removeprefix text [squote, squote, squote])
                                     [dquote, dquote, dquote])
                                  [squote, squote, squote])
                               [dquote, dquote, dquote]
                        else text))))"

definition parse_multiline_string :: "node \<Rightarrow> exn + string" where
  "parse_multiline_string node =
     Inr (strip_chars (strip_chars (ntext node) [squote, squote, squote])
            [dquote, dquote, dquote])"

definition str_join :: "string \<Rightarrow> string list \<Rightarrow> string" where
  "str_join sep xs = (case xs of [] \<Rightarrow> [] | y # ys \<Rightarrow> y @ concat (map (\<lambda>z. sep @ z) ys))"

text \<open>The loop of \<open>parse_relative_indent_block\<close> over the block's children, with the
  list \<open>lines\<close> it appends to. \<open>indent_prefix.text\<close> and \<open>content.text\<close> are \<open>bytes\<close>
  values: the prefix is stripped with the \<open>str\<close> argument \<open>'@:'\<close>, and the content is
  formatted into an f-string, which renders a \<open>bytes\<close> value as its \<open>repr\<close>.\<close>

fun relative_indent_lines :: "node list \<Rightarrow> string list \<Rightarrow> exn + string list" where
  "relative_indent_lines [] lines = Inr lines"
| "relative_indent_lines (line_node # rest) lines =
     (if ntype line_node = ''relative_indent_line''
      then (let indent_prefix =
                  find_first_by_type (children line_node) (OneType ''relative_indent_prefix'');
                content = find_first_by_type (children line_node) (OneType ''match_any_char'')
            in case (indent_prefix, content) of
                 (Some p, Some c) \<Rightarrow>
                   (case bytes_strip_with_str (ntext p) ''@:'' of
                      Inl e \<Rightarrow> Inl e
                    | Inr stripped \<Rightarrow>
                        (case int_of_bytes stripped of
                           Inl e \<Rightarrow> Inl e
                         | Inr indent \<Rightarrow>
                             relative_indent_lines rest
                               (lines @ [replicate (nat (4 * indent)) CHR '' ''
                                         @ bytes_repr (ntext c)])))
               | _ \<Rightarrow> relative_indent_lines rest lines)
      else relative_indent_lines rest lines)"

definition parse_relative_indent_block :: "node \<Rightarrow> exn + string" where
  "parse_relative_indent_block node =
     (case relative_indent_lines (children node) [] of
        Inl e \<Rightarrow> Inl e
      | Inr lines \<Rightarrow> Inr (str_join [CHR 0x0A] lines))"

definition number_of :: "node \<Rightarrow> exn + int" where
  "number_of node =
     (case attr_of ''text'' (find_first_by_type (children node) (OneType ''number'')) of
        Inl e \<Rightarrow> Inl e
      | Inr number \<Rightarrow> int_of_bytes (ntext number))"

definition parse_offset_clause :: "node option \<Rightarrow> exn + int option" where
  "parse_offset_clause node_arg =
     (case node_arg of
        None \<Rightarrow> Inr None
      | Some node \<Rightarrow> (case number_of node of Inl e \<Rightarrow> Inl e | Inr i \<Rightarrow> Inr (Some i)))"

definition parse_relative_indentation :: "node option \<Rightarrow> exn + int option" where
  "parse_relative_indentation node_arg =
     (case node_arg of
        None \<Rightarrow> Inr None
      | Some node \<Rightarrow> (case number_of node of Inl e \<Rightarrow> Inl e | Inr i \<Rightarrow> Inr (Some i)))"

text \<open>A clause node that must be present and of the given type.\<close>

definition expect_node :: "string \<Rightarrow> node option \<Rightarrow> exn + node" where
  "expect_node ty node_arg =
     (case node_arg of
        None \<Rightarrow> Inl (ValueError (''Expected '' @ ty @ '' node''))
      | Some node \<Rightarrow>
          if ntype node \<noteq> ty then Inl (ValueError (''Expected '' @ ty @ '' node''))
          else Inr node)"

definition parse_singlefile_clause :: "node option \<Rightarrow> exn + SingleFileClause" where
  "parse_singlefile_clause node_arg =
     (case expect_node ''singlefile_clause'' node_arg of
        Inl e \<Rightarrow> Inl e
      | Inr node \<Rightarrow>
          (case find_first_by_type (children node) (OneType ''string'') of
             None \<Rightarrow> Inl (ValueError ''No file_path found in singlefile_clause'')
           | Some path_node \<Rightarrow>
               (case parse_string (Some path_node) of
                  Inl e \<Rightarrow> Inl e
                | Inr p \<Rightarrow> Inr \<lparr>file_path = p\<rparr>)))"

text \<open>\<open>parse_content_clause\<close> returns \<open>None\<close> when no branch of its \<open>if\<close> chain
  fires; the node was found by one of the three types, so one always does.\<close>

definition parse_content_clause :: "node option \<Rightarrow> exn + string option" where
  "parse_content_clause node_arg =
     (case expect_node ''content_clause'' node_arg of
        Inl e \<Rightarrow> Inl e
      | Inr node \<Rightarrow>
          (case find_first_by_type (children node)
                  (TypeList [''string'', ''relative_indent_block'', ''multiline_string'']) of
             None \<Rightarrow> Inl (ValueError ''No content found in content_clause'')
           | Some content_node \<Rightarrow>
               if ntype content_node = ''string''
               then map_sum id Some (parse_string (Some content_node))
               else if ntype content_node = ''relative_indent_block''
               then map_sum id Some (parse_relative_indent_block content_node)
               else if ntype content_node = ''multiline_string''
               then map_sum id Some (parse_multiline_string content_node)
               else Inr None))"

definition parse_to_value_clause :: "node option \<Rightarrow> exn + string" where
  "parse_to_value_clause node_arg =
     (case expect_node ''to_value_clause'' node_arg of
        Inl e \<Rightarrow> Inl e
      | Inr node \<Rightarrow>
          (case find_first_by_type (children node) (OneType ''string'') of
             None \<Rightarrow> Inl (ValueError ''No value found in to_value_clause'')
           | Some value_node \<Rightarrow> parse_string (Some value_node)))"

definition parse_update_content :: "node \<Rightarrow> exn + string option" where
  "parse_update_content node =
     (case find_first_by_type (children node) (OneType ''content_clause'') of
        Some content_clause \<Rightarrow> parse_content_clause (Some content_clause)
      | None \<Rightarrow> Inr None)"

section \<open>Tree walker and command builder\<close>

definition BodyOrWhole_of :: "string \<Rightarrow> exn + BodyOrWhole" where
  "BodyOrWhole_of s =
     (if s = ''body'' then Inr BODY
      else if s = ''whole'' then Inr WHOLE
      else Inl (not_a_valid s ''BodyOrWhole''))"

definition parse_marker :: "node \<Rightarrow> exn + Marker" where
  "parse_marker node0 =
     (case (if casefold (ntype node0) = ''marker''
            then list_index (named_children node0) 0 else Inr node0) of
        Inl e \<Rightarrow> Inl e
      | Inr node \<Rightarrow>
          (case list_index (children node) 0 of
             Inl e \<Rightarrow> Inl e
           | Inr first \<Rightarrow>
               (let marker_type = ntype first
                in case parse_string
                          (find_first_by_type (named_children node) (OneType ''string'')) of
                     Inl e \<Rightarrow> Inl e
                   | Inr v \<Rightarrow>
                       (case parse_offset_clause
                               (find_first_by_type (named_children node)
                                  (OneType ''offset_clause'')) of
                          Inl e \<Rightarrow> Inl e
                        | Inr off \<Rightarrow>
                            (case MarkerType_of (casefold marker_type) of
                               Inl e \<Rightarrow> Inl e
                             | Inr mt \<Rightarrow>
                                 Inr \<lparr>mtype = mt, mvalue = v, moffset = off\<rparr>)))))"

text \<open>\<open>RelativePositionType(node.child(0).type.casefold())\<close>.\<close>

definition qualifier_of :: "node \<Rightarrow> exn + RelativePositionType" where
  "qualifier_of node =
     (case attr_of ''type'' (child_at node 0) of
        Inl e \<Rightarrow> Inl e
      | Inr c \<Rightarrow> RelativePositionType_of (casefold (ntype c)))"

text \<open>The first \<open>match\<close> of \<open>parse_region\<close>: the wrapper layers are taken off and the
  qualifier of a relative-position wrapper is recorded.\<close>

definition region_unwrap :: "node \<Rightarrow> exn + node \<times> RelativePositionType option" where
  "region_unwrap node =
     (let ty = casefold (ntype node)
      in if ty = ''marker_or_segment''
         then map_sum id (\<lambda>n. (n, None)) (list_index (named_children node) 0)
         else if ty = ''region_field''
         then (case list_index (children node) 0 of
                 Inl e \<Rightarrow> Inl e
               | Inr n \<Rightarrow>
                   if casefold (ntype n) = ''marker_or_segment''
                   then map_sum id (\<lambda>n'. (n', None)) (list_index (named_children n) 0)
                   else Inr (n, None))
         else if ty = ''relpos_bai''
         then (case list_index (named_children node) 0 of
                 Inl e \<Rightarrow> Inl e
               | Inr n \<Rightarrow>
                   (case qualifier_of n of
                      Inl e \<Rightarrow> Inl e
                    | Inr q \<Rightarrow>
                        map_sum id (\<lambda>n'. (n', Some q)) (list_index (named_children n) 0)))
         else if ty = ''relpos_beforeafter''
         then (case qualifier_of node of
                 Inl e \<Rightarrow> Inl e
               | Inr q \<Rightarrow>
                   map_sum id (\<lambda>n'. (n', Some q)) (list_index (named_children node) 0))
         else if ty = ''relpos_at''
         then map_sum id (\<lambda>n. (n, None)) (list_index (named_children node) 0)
         else Inr (node, None))"

text \<open>The end of \<open>parse_region\<close>: a recorded qualifier turns the result into a
  \<open>RelativeMarker\<close> built from the result's \<open>type\<close>, \<open>value\<close> and \<open>offset\<close>; a segment
  and a \<open>BodyOrWhole\<close> member have no attribute \<open>type\<close>.\<close>

definition has_no_attribute :: "string \<Rightarrow> string \<Rightarrow> exn" where
  "has_no_attribute cls attr =
     AttributeError (str_repr cls @ '' object has no attribute '' @ str_repr attr)"

fun requalify :: "RelativePositionType option \<Rightarrow> Region \<Rightarrow> exn + Region" where
  "requalify None result = Inr result"
| "requalify (Some q) (RMarker m) =
     Inr (RRelativeMarker
            \<lparr>mtype = mtype m, mvalue = mvalue m, moffset = moffset m, qualifier = q\<rparr>)"
| "requalify (Some q) (RRelativeMarker m) =
     Inr (RRelativeMarker
            \<lparr>mtype = mtype m, mvalue = mvalue m, moffset = moffset m, qualifier = q\<rparr>)"
| "requalify (Some q) (Segment a b) = Inl (has_no_attribute ''Segment'' ''type'')"
| "requalify (Some q) (RBodyOrWhole b) = Inl (has_no_attribute ''BodyOrWhole'' ''type'')"

text \<open>\<open>find_first_by_type(node.named_children, ty).children[1]\<close>, an end of a segment.\<close>

definition segment_end :: "node \<Rightarrow> string \<Rightarrow> exn + node" where
  "segment_end node ty =
     (case attr_of ''children'' (find_first_by_type (named_children node) (OneType ty)) of
        Inl e \<Rightarrow> Inl e
      | Inr n \<Rightarrow> list_index (children n) 1)"

lemma size_child: "c \<in> set (children n) \<Longrightarrow> size c < size n"
  by (cases n) (auto simp: less_Suc_eq_le size_list_estimation')

lemma list_index_mem: "list_index xs i = Inr x \<Longrightarrow> x \<in> set xs"
  by (auto simp: list_index_def split: if_splits)

lemma find_first_by_type_mem: "find_first_by_type xs t = Some x \<Longrightarrow> x \<in> set xs"
  by (cases t) (auto simp: find_Some_iff)

lemma named_children_subset: "x \<in> set (named_children n) \<Longrightarrow> x \<in> set (children n)"
  by (simp add: named_children_def)

lemma size_index_child: "list_index (children n) i = Inr x \<Longrightarrow> size x < size n"
  by (blast intro: size_child dest: list_index_mem)

lemma size_index_named_child: "list_index (named_children n) i = Inr x \<Longrightarrow> size x < size n"
  by (blast intro: size_child named_children_subset dest: list_index_mem)

lemma size_found_named_child:
  "find_first_by_type (named_children n) t = Some x \<Longrightarrow> size x < size n"
  by (blast intro: size_child named_children_subset dest: find_first_by_type_mem)

lemma map_sum_Inr: "map_sum f g x = Inr y \<longleftrightarrow> (\<exists>z. x = Inr z \<and> y = g z)"
  by (cases x) auto

lemma region_unwrap_size: "region_unwrap n0 = Inr (n, q) \<Longrightarrow> size n \<le> size n0"
  unfolding region_unwrap_def Let_def
  by (auto simp: map_sum_Inr split: if_splits sum.splits
           dest!: size_index_child size_index_named_child)

lemma segment_end_size: "segment_end n ty = Inr m \<Longrightarrow> size m < size n"
proof -
  assume a: "segment_end n ty = Inr m"
  then obtain x where x: "find_first_by_type (named_children n) (OneType ty) = Some x"
    and m: "list_index (children x) 1 = Inr m"
    by (auto simp: segment_end_def attr_of_def split: option.splits)
  from x have "size x < size n" by (rule size_found_named_child)
  moreover from m have "size m < size x" by (rule size_index_child)
  ultimately show ?thesis by simp
qed

function parse_region :: "node \<Rightarrow> exn + Region"
  and parse_segment :: "node \<Rightarrow> exn + Region" where
  "parse_region node0 =
     (case region_unwrap node0 of
        Inl e \<Rightarrow> Inl e
      | Inr (node, qual) \<Rightarrow>
          (case (if casefold (ntype node) = ''marker'' \<or> casefold (ntype node) = ''linemarker''
                 then map_sum id RMarker (parse_marker node)
                 else if casefold (ntype node) = ''segment''
                 then parse_segment node
                 else if casefold (ntype node) = ''body'' \<or> casefold (ntype node) = ''whole''
                 then map_sum id RBodyOrWhole (BodyOrWhole_of (casefold (ntype node)))
                 else Inl (ValueError (''[parse_region] Unexpected node type: ''
                                       @ casefold (ntype node)))) of
             Inl e \<Rightarrow> Inl e
           | Inr result \<Rightarrow> requalify qual result))"
| "parse_segment node =
     (case segment_end node ''relpos_segment_start'' of
        Inl e \<Rightarrow> Inl e
      | Inr relpos_start \<Rightarrow>
          (case segment_end node ''relpos_segment_end'' of
             Inl e \<Rightarrow> Inl e
           | Inr relpos_end \<Rightarrow>
               (case parse_region relpos_start of
                  Inl e \<Rightarrow> Inl e
                | Inr seg_from \<Rightarrow>
                    (case parse_region relpos_end of
                       Inl e \<Rightarrow> Inl e
                     | Inr seg_to \<Rightarrow> Inr (Segment seg_from seg_to)))))"
  by pat_completeness auto
termination
  by (relation "measure (\<lambda>x. case x of Inl n \<Rightarrow> 2 * size n + 1 | Inr n \<Rightarrow> 2 * size n)")
     (auto dest: region_unwrap_size segment_end_size)

declare parse_region.simps [simp del] parse_segment.simps [simp del]

text \<open>\<open>parse_region\<close> applied to the result of \<open>find_first_by_type\<close>, which may be
  \<open>None\<close>.\<close>

definition parse_region_arg :: "node option \<Rightarrow> exn + Region" where
  "parse_region_arg node_arg =
     (case attr_of ''type'' node_arg of Inl e \<Rightarrow> Inl e | Inr node \<Rightarrow> parse_region node)"

definition parse_delete_clause :: "node \<Rightarrow> exn + EditingAction" where
  "parse_delete_clause node =
     map_sum id DeleteClause
       (parse_region_arg
          (find_first_by_type (named_children node)
             (TypeList [''marker_or_segment'', ''region_field''])))"

definition parse_replace_clause :: "node \<Rightarrow> exn + EditingAction" where
  "parse_replace_clause node =
     map_sum id ReplaceClause
       (parse_region_arg
          (find_first_by_type (named_children node)
             (TypeList [''marker_or_segment'', ''region_field''])))"

definition parse_insert_clause :: "node option \<Rightarrow> exn + EditingAction" where
  "parse_insert_clause node_arg =
     (case attr_of ''children'' node_arg of
        Inl e \<Rightarrow> Inl e
      | Inr node \<Rightarrow>
          map_sum id InsertClause
            (parse_region_arg (find_first_by_type (children node) (OneType ''relpos_bai''))))"

definition parse_move_clause :: "node \<Rightarrow> exn + EditingAction" where
  "parse_move_clause node =
     (case parse_region_arg
             (find_first_by_type (named_children node)
                (TypeList [''marker_or_segment'', ''region_field''])) of
        Inl e \<Rightarrow> Inl e
      | Inr source \<Rightarrow>
          (case attr_of ''named_children''
                  (find_first_by_type (named_children node)
                     (OneType ''update_move_clause_destination'')) of
             Inl e \<Rightarrow> Inl e
           | Inr destination \<Rightarrow>
               (case parse_insert_clause
                       (find_first_by_type (named_children destination)
                          (OneType ''insert_clause'')) of
                  Inl e \<Rightarrow> Inl e
                | Inr insert_clause \<Rightarrow>
                    (case parse_relative_indentation
                            (find_first_by_type (named_children destination)
                               (OneType ''relative_indentation'')) of
                       Inl e \<Rightarrow> Inl e
                     | Inr rel_indent \<Rightarrow>
                         Inr (MoveClause source (insert_position insert_clause) None
                                rel_indent)))))"

definition parse_update_action :: "node \<Rightarrow> exn + EditingAction" where
  "parse_update_action node =
     (case find_first_by_type (named_children node)
             (TypeList [''update_delete_region_clause'', ''update_delete_mos_clause'',
                        ''update_move_region_clause'', ''update_move_mos_clause'',
                        ''insert_clause'', ''replace_mos_clause'', ''replace_region_clause'']) of
        None \<Rightarrow> Inl (ValueError ''No valid action found in update command'')
      | Some action_node \<Rightarrow>
          if ntype action_node = ''update_delete_mos_clause''
             \<or> ntype action_node = ''update_delete_region_clause''
          then parse_delete_clause action_node
          else if ntype action_node = ''update_move_mos_clause''
                  \<or> ntype action_node = ''update_move_region_clause''
          then parse_move_clause action_node
          else if ntype action_node = ''insert_clause''
          then parse_insert_clause (Some action_node)
          else if ntype action_node = ''replace_mos_clause''
                  \<or> ntype action_node = ''replace_region_clause''
          then parse_replace_clause action_node
          else Inl (ValueError (''[parse_update_action] Invalid: '' @ ntype action_node)))"

definition parse_where_clause :: "node \<Rightarrow> exn + WhereClause" where
  "parse_where_clause node =
     (case find_first_by_type (children node) (OneType ''condition'') of
        None \<Rightarrow> Inl (ValueError ''No condition found in where clause'')
      | Some condition \<Rightarrow>
          (case parse_string
                  (find_first_by_type (children condition) (OneType ''conditions_left'')) of
             Inl e \<Rightarrow> Inl e
           | Inr f \<Rightarrow>
               (case parse_string
                       (find_first_by_type (children condition) (OneType ''operator'')) of
                  Inl e \<Rightarrow> Inl e
                | Inr opr \<Rightarrow>
                    (case parse_string
                            (find_first_by_type (children condition) (OneType ''string'')) of
                       Inl e \<Rightarrow> Inl e
                     | Inr v \<Rightarrow> Inr \<lparr>wfield = f, woperator = opr, wvalue = v\<rparr>))))"

definition parse_identifier_from_file :: "node \<Rightarrow> exn + IdentifierFromFile" where
  "parse_identifier_from_file node =
     (case list_index (children node) 0 of
        Inl e \<Rightarrow> Inl e
      | Inr first \<Rightarrow>
          (let ident_type = ntype first;
               file_clause = find_first_by_type (named_children node)
                               (OneType ''singlefile_clause'');
               where_node = find_first_by_type (named_children node) (OneType ''where_clause'');
               offset_clause = find_first_by_type (named_children node)
                                 (OneType ''offset_clause'')
           in case (file_clause, where_node) of
                (Some fc, Some wc) \<Rightarrow>
                  (case parse_singlefile_clause (Some fc) of
                     Inl e \<Rightarrow> Inl e
                   | Inr sfc \<Rightarrow>
                       (case parse_where_clause wc of
                          Inl e \<Rightarrow> Inl e
                        | Inr wh \<Rightarrow>
                            (case (case offset_clause of
                                     Some oc \<Rightarrow> parse_offset_clause (Some oc)
                                   | None \<Rightarrow> Inr None) of
                               Inl e \<Rightarrow> Inl e
                             | Inr off \<Rightarrow>
                                 Inr \<lparr>file_path = file_path sfc, where_clause = wh,
                                      identifier_type = ident_type, ioffset = off\<rparr>)))
              | _ \<Rightarrow> Inl (ValueError ''Invalid identifier_from_file clause'')))"

definition parse_update_target :: "node \<Rightarrow> exn + FileOrIdentifierWithin" where
  "parse_update_target node =
     (case find_first_by_type (named_children node)
             (TypeList [''singlefile_clause'', ''identifier_from_file'']) of
        None \<Rightarrow> Inl (ValueError ''No valid target found in update command'')
      | Some target_node \<Rightarrow>
          if casefold (ntype target_node) = ''singlefile_clause''
          then map_sum id SingleFile (parse_singlefile_clause (Some target_node))
          else if casefold (ntype target_node) = ''identifier_from_file''
          then map_sum id Identifier (parse_identifier_from_file target_node)
          else Inl (ValueError (''[parse_update_target] Invalid target: ''
                                @ casefold (ntype target_node))))"

definition parse_create_command :: "node \<Rightarrow> exn + Command" where
  "parse_create_command node =
     (case parse_singlefile_clause
             (find_first_by_type (children node) (OneType ''singlefile_clause'')) of
        Inl e \<Rightarrow> Inl e
      | Inr sfc \<Rightarrow>
          (case parse_content_clause
                  (find_first_by_type (children node) (OneType ''content_clause'')) of
             Inl e \<Rightarrow> Inl e
           | Inr content \<Rightarrow> Inr (CreateCommand ''create'' (file_path sfc) content)))"

definition parse_rm_file_command :: "node \<Rightarrow> exn + Command" where
  "parse_rm_file_command node =
     (case parse_singlefile_clause
             (find_first_by_type (children node) (OneType ''singlefile_clause'')) of
        Inl e \<Rightarrow> Inl e
      | Inr sfc \<Rightarrow> Inr (RmFileCommand ''rm_file'' (file_path sfc)))"

definition parse_mv_file_command :: "node \<Rightarrow> exn + Command" where
  "parse_mv_file_command node =
     (case parse_singlefile_clause
             (find_first_by_type (children node) (OneType ''singlefile_clause'')) of
        Inl e \<Rightarrow> Inl e
      | Inr sfc \<Rightarrow>
          (case parse_to_value_clause
                  (find_first_by_type (children node) (OneType ''to_value_clause'')) of
             Inl e \<Rightarrow> Inl e
           | Inr target_path \<Rightarrow> Inr (MvFileCommand ''mv_file'' (file_path sfc) target_path)))"

definition parse_update_command :: "node \<Rightarrow> exn + Command" where
  "parse_update_command node =
     (case parse_update_target node of
        Inl e \<Rightarrow> Inl e
      | Inr target \<Rightarrow>
          (case parse_update_action node of
             Inl e \<Rightarrow> Inl e
           | Inr action \<Rightarrow>
               (case parse_update_content node of
                  Inl e \<Rightarrow> Inl e
                | Inr content \<Rightarrow> Inr (UpdateCommand ''update'' target action content))))"

definition parse_command :: "node \<Rightarrow> exn + Command" where
  "parse_command node =
     (if ntype node = ''create_command'' then parse_create_command node
      else if ntype node = ''rm_file_command'' then parse_rm_file_command node
      else if ntype node = ''mv_file_command'' then parse_mv_file_command node
      else if ntype node = ''update_command'' then parse_update_command node
      else Inl (ValueError (''Unexpected command type: '' @ ntype node)))"

section \<open>Diagnostic collector\<close>

record ParseError =
  command_ordinal :: int
  message :: string
  line :: int
  column :: int
  suggestion :: string

text \<open>\<open>_generate_suggestion\<close> reads only the parent of the error node; the argument
  here is that parent (\<open>None\<close> for the root).\<close>

definition generate_suggestion :: "node option \<Rightarrow> string" where
  "generate_suggestion parent =
     (case parent of
        None \<Rightarrow> ''Please check the syntax near the error.''
      | Some p \<Rightarrow>
          if ntype p = ''content_clause''
          then ''Ensure the content block is properly enclosed with matching quotes (''
               @ [squote, squote, squote] @ '' or '' @ [dquote, dquote] @ '').''
          else if ntype p = ''update_command''
          then ''An action clause ('REPLACE', 'INSERT', 'DELETE') is expected in the 'UPDATE' command.''
          else if ntype p = ''create_command''
          then ''The 'CREATE' command may be missing 'WITH CONTENT' or has a syntax issue.''
          else ''Please check the syntax near the error (parent node: '' @ ntype p @ '')'')"

text \<open>\<open>code_text[start:end]\<close> for non-negative bounds: a slice of the \<open>str\<close> by code
  points. The code passes the node's byte offsets as the bounds. A code point is a byte
  that is not a continuation byte, with the continuation bytes that follow it.\<close>

definition is_continuation :: "char \<Rightarrow> bool" where
  "is_continuation c = (128 \<le> (of_char c :: nat) \<and> (of_char c :: nat) < 192)"

fun drop_chars :: "nat \<Rightarrow> string \<Rightarrow> string" where
  "drop_chars 0 s = s"
| "drop_chars (Suc n) [] = []"
| "drop_chars (Suc n) (c # cs) = drop_chars n (dropWhile is_continuation cs)"

fun take_chars :: "nat \<Rightarrow> string \<Rightarrow> string" where
  "take_chars 0 s = []"
| "take_chars (Suc n) [] = []"
| "take_chars (Suc n) (c # cs) =
     c # takeWhile is_continuation cs @ take_chars n (dropWhile is_continuation cs)"

definition str_slice :: "string \<Rightarrow> nat \<Rightarrow> nat \<Rightarrow> string" where
  "str_slice s a b = take_chars (b - a) (drop_chars a s)"

definition error_of :: "node \<Rightarrow> string \<Rightarrow> int \<Rightarrow> node option \<Rightarrow> ParseError" where
  "error_of node code_text ordinal parent =
     (let ln = int (fst (start_point node)) + 1;
          col = int (snd (start_point node)) + 1;
          error_text = str_strip (str_slice code_text (start_byte node) (end_byte node))
      in \<lparr>command_ordinal = ordinal,
          message = ''Syntax error near '' @ [squote] @ error_text @ [squote] @ '' at line ''
                    @ str_int ln @ '', column '' @ str_int col @ ''.'',
          line = ln, column = col,
          suggestion = generate_suggestion parent\<rparr>)"

text \<open>\<open>_collect_parse_errors\<close>. The last argument is \<open>node.parent\<close>: the node the
  recursion came from, \<open>None\<close> at the root.\<close>

function collect_parse_errors ::
  "node \<Rightarrow> string \<Rightarrow> int \<Rightarrow> node option \<Rightarrow> ParseError list" where
  "collect_parse_errors node code_text ordinal parent =
     (if has_error node
      then (if ntype node = ''ERROR'' then [error_of node code_text ordinal parent] else [])
           @ concat (map (\<lambda>c. collect_parse_errors c code_text ordinal (Some node))
                       (children node))
      else [])"
  by pat_completeness auto
termination
  by (relation "measure (\<lambda>(n, c, k, p). size n)") (auto simp: size_child)

declare collect_parse_errors.simps [simp del]

section \<open>Parser facade\<close>

text \<open>The parsing engine is a parameter: it turns the script text into the root node of
  a tree, or raises.\<close>

type_synonym engine = "string \<Rightarrow> exn + node"

text \<open>The loop of \<open>parse_script\<close> over the root's children, with the list \<open>commands\<close>,
  the counter \<open>command_ordinal\<close> and the lines printed so far. It ends with the three
  of them, or with the exception raised and the counter and output at that moment.\<close>

fun parse_script_loop ::
  "node list \<Rightarrow> Command list \<Rightarrow> int \<Rightarrow> string list
     \<Rightarrow> (exn \<times> int \<times> string list) + (Command list \<times> int \<times> string list)" where
  "parse_script_loop [] commands ordinal out = Inr (commands, ordinal, out)"
| "parse_script_loop (ch # rest) commands ordinal out =
     (let node_type = casefold (ntype ch)
      in case (if node_type = ''comment''
               then map_sum id
                      (\<lambda>s. out @ [''(COMMENT) '' @ str_strip (removeprefix s ''--'')])
                      (parse_string (Some ch))
               else Inr out) of
           Inl e \<Rightarrow> Inl (e, ordinal, out)
         | Inr out' \<Rightarrow>
             if \<not> endswith node_type ''_command''
             then parse_script_loop rest commands ordinal out'
             else (case parse_command ch of
                     Inl e \<Rightarrow> Inl (e, ordinal, out')
                   | Inr c \<Rightarrow> parse_script_loop rest (commands @ [c]) (ordinal + 1) out'))"

text \<open>The body of the \<open>try\<close> block.\<close>

definition parse_script_try ::
  "engine \<Rightarrow> string
     \<Rightarrow> (exn \<times> int \<times> string list) + ((Command list \<times> ParseError list) \<times> string list)" where
  "parse_script_try parser code_text =
     (let ordinal = 1
      in case parser code_text of
           Inl e \<Rightarrow> Inl (e, ordinal, [])
         | Inr root_node \<Rightarrow>
             (let errors = collect_parse_errors root_node code_text ordinal None
              in if errors \<noteq> [] then Inr (([], errors), [])
                 else (case parse_script_loop (children root_node) [] ordinal [] of
                         Inl x \<Rightarrow> Inl x
                       | Inr (commands, k, out) \<Rightarrow> Inr ((commands, []), out))))"

text \<open>\<open>parse_script\<close> with its \<open>except Exception\<close> handler: the returned pair and the
  lines printed.\<close>

definition run_parse_script ::
  "engine \<Rightarrow> string \<Rightarrow> (Command list \<times> ParseError list) \<times> string list" where
  "run_parse_script parser code_text =
     (case parse_script_try parser code_text of
        Inr r \<Rightarrow> r
      | Inl (e, ordinal, out) \<Rightarrow>
          (([], [\<lparr>command_ordinal = ordinal, message = exn_str e, line = 0, column = 0,
                  suggestion = ''Revise your CEDARScript syntax.''\<rparr>]), out))"

definition parse_script :: "engine \<Rightarrow> string \<Rightarrow> Command list \<times> ParseError list" where
  "parse_script parser code_text = fst (run_parse_script parser code_text)"

section \<open>Notions used in the statements\<close>

text \<open>A top-level command node is a child of the root whose case-folded type ends with
  \<open>_command\<close>: the test of the loop in \<open>parse_script\<close>.\<close>

definition is_command_node :: "node \<Rightarrow> bool" where
  "is_command_node ch = endswith (casefold (ntype ch)) ''_command''"

text \<open>The line \<open>parse_script\<close> prints for a node: one for a comment, none otherwise.\<close>

definition comment_output :: "node \<Rightarrow> string list" where
  "comment_output ch =
     (if casefold (ntype ch) = ''comment''
      then [''(COMMENT) '' @ str_strip (removeprefix (ntext ch) ''--'')] else [])"


fun contains_error :: "node \<Rightarrow> bool" where
  "contains_error (Node ty nm he sp sb eb tx cs) = (ty = ''ERROR'' \<or> list_ex contains_error cs)"



section \<open>Example trees\<close>

text \<open>A named and an anonymous node without error flag; position and byte range play no
  part in command building.\<close>

definition named_node :: "string \<Rightarrow> string \<Rightarrow> node list \<Rightarrow> node" where
  "named_node ty txt cs = Node ty True False (0, 0) 0 0 txt cs"

definition anon_node :: "string \<Rightarrow> string \<Rightarrow> node list \<Rightarrow> node" where
  "anon_node ty txt cs = Node ty False False (0, 0) 0 0 txt cs"

text \<open>An update that moves a region into another file.\<close>

definition cross_file_move :: Command where
  "cross_file_move =
     UpdateCommand ''update'' (SingleFile \<lparr>file_path = ''a.py''\<rparr>)
       (MoveClause (RBodyOrWhole WHOLE)
          (RRelativeMarker \<lparr>mtype = LINE, mvalue = ''10'', moffset = None, qualifier = AFTER\<rparr>)
          (Some \<lparr>file_path = ''b.py''\<rparr>) None)
       None"

text \<open>The token \<open>"'a'"\<close>: a double-quoted string whose content is \<open>a\<close> in single
  quotes. The tokens \<open>'say \'hi\''\<close> and \<open>'it\'s ok'\<close>: single-quoted strings with
  escaped quotes, at the end of the content and inside it.\<close>

definition nested_quote_token :: node where
  "nested_quote_token =
     named_node ''single_quoted_string'' ([dquote, squote] @ ''a'' @ [squote, dquote]) []"

definition escaped_end_token :: node where
  "escaped_end_token =
     named_node ''single_quoted_string''
       ([squote] @ ''say '' @ [backslash, squote] @ ''hi'' @ [backslash, squote, squote]) []"

definition escaped_quote_token :: node where
  "escaped_quote_token =
     named_node ''single_quoted_string''
       ([squote] @ ''it'' @ [backslash, squote] @ ''s ok'' @ [squote]) []"

text \<open>A line of a relative-indent block with its prefix and its content, and the block
  of the two lines \<open>@0:def foo():\<close> and \<open>@1:pass\<close>.\<close>

definition indent_line :: "string \<Rightarrow> string \<Rightarrow> node" where
  "indent_line pre txt =
     named_node ''relative_indent_line'' (pre @ txt)
       [named_node ''relative_indent_prefix'' pre [], named_node ''match_any_char'' txt []]"

definition indent_block_example :: node where
  "indent_block_example =
     named_node ''relative_indent_block'' []
       [indent_line ''@0:'' ''def foo():'', indent_line ''@1:'' ''pass'']"

text \<open>A line of a block that has both an indent prefix and content: the lines the
  decoder does not skip.\<close>

definition line_complete :: "node \<Rightarrow> bool" where
  "line_complete line_node =
     (ntype line_node = ''relative_indent_line''
      \<and> find_first_by_type (children line_node) (OneType ''relative_indent_prefix'') \<noteq> None
      \<and> find_first_by_type (children line_node) (OneType ''match_any_char'') \<noteq> None)"

text \<open>The command \<open>RM FILE "path"\<close>, a comment, a command of an unknown kind, a root
  over given children, and a root whose third child is an error node at row 2,
  column 4.\<close>

definition rm_file_node :: "string \<Rightarrow> node" where
  "rm_file_node path =
     named_node ''rm_file_command'' []
       [anon_node ''RM'' ''RM'' [],
        named_node ''singlefile_clause'' []
          [anon_node ''FILE'' ''FILE'' [],
           named_node ''string'' []
             [named_node ''raw_string'' ([dquote] @ path @ [dquote]) []]]]"

definition comment_node :: node where
  "comment_node = named_node ''comment'' ''-- tidy up'' []"

definition unknown_command_node :: node where
  "unknown_command_node = named_node ''select_command'' [] []"

definition script_root :: "node list \<Rightarrow> node" where
  "script_root cs = Node ''source_file'' True False (0, 0) 0 0 [] cs"

definition error_node :: node where
  "error_node = Node ''ERROR'' True True (2, 4) 3 7 [] []"

definition error_root :: node where
  "error_root =
     Node ''source_file'' True True (0, 0) 0 9 []
       [rm_file_node ''a.py'', rm_file_node ''b.py'', error_node]"



text \<open>The command \<open>CREATE FILE "a.py" WITH CONTENT\<close> followed by the relative-indent
  block of the two lines above.\<close>

definition create_indent_node :: node where
  "create_indent_node =
     named_node ''create_command'' []
       [anon_node ''CREATE'' ''CREATE'' [],
        named_node ''singlefile_clause'' []
          [anon_node ''FILE'' ''FILE'' [],
           named_node ''string'' []
             [named_node ''raw_string'' ([dquote] @ ''a.py'' @ [dquote]) []]],
        named_node ''content_clause'' []
          [anon_node ''WITH'' ''WITH'' [], anon_node ''CONTENT'' ''CONTENT'' [],
           indent_block_example]]"

text \<open>An engine that returns a given tree, and one that raises.\<close>

definition engine_of :: "node \<Rightarrow> engine" where
  "engine_of root = (\<lambda>code_text. Inr root)"

definition failing_engine :: engine where
  "failing_engine = (\<lambda>code_text. Inl (EngineError ''parse failed''))"



section \<open>Rendering of markers\<close>

text \<open>
  C8. A marker renders as its kind, a space and its value in single quotes, followed by
  \<open>at offset N\<close> exactly when it has an offset; a relative marker renders as its marker
  followed by the qualifier in parentheses exactly when the qualifier is not \<open>AT\<close>. The
  function marker \<open>foo\<close> with offset 2 renders as \<open>function 'foo' at offset 2\<close>, with
  qualifier \<open>BEFORE\<close> as \<open>function 'foo' at offset 2 (before)\<close>, and with qualifier
  \<open>AT\<close> without a qualifier clause.
\<close>

theorem marker_rendering:
  "Marker_str m =
     MarkerType_value (mtype m) @ '' '' @ [squote] @ mvalue m @ [squote]
     @ (case moffset m of None \<Rightarrow> [] | Some n \<Rightarrow> '' at offset '' @ str_int n)
   \<and> RelativeMarker_str r =
     Marker_str (Marker.truncate r)
     @ (if qualifier r = AT then []
        else '' ('' @ RelativePositionType_value (qualifier r) @ '')'')
   \<and> Marker_str \<lparr>mtype = FUNCTION, mvalue = ''foo'', moffset = Some 2\<rparr>
       = ''function '' @ [squote] @ ''foo'' @ [squote] @ '' at offset 2''
   \<and> RelativeMarker_str
         \<lparr>mtype = FUNCTION, mvalue = ''foo'', moffset = Some 2, qualifier = BEFORE\<rparr>
       = ''function '' @ [squote] @ ''foo'' @ [squote] @ '' at offset 2 (before)''
   \<and> RelativeMarker_str
         \<lparr>mtype = FUNCTION, mvalue = ''foo'', moffset = Some 2, qualifier = AT\<rparr>
       = ''function '' @ [squote] @ ''foo'' @ [squote] @ '' at offset 2''"
proof -
  have gen_m: "Marker_str m =
     MarkerType_value (mtype m) @ '' '' @ [squote] @ mvalue m @ [squote]
     @ (case moffset m of None \<Rightarrow> [] | Some n \<Rightarrow> '' at offset '' @ str_int n)"
    by (simp add: Marker_str_def Let_def split: option.splits)
  have gen_r: "RelativeMarker_str r =
     Marker_str (Marker.truncate r)
     @ (if qualifier r = AT then []
        else '' ('' @ RelativePositionType_value (qualifier r) @ '')'')"
    by (cases "qualifier r") (simp_all add: RelativeMarker_str_def Let_def)
  have two: "str_int 2 = ''2''"
    by (simp add: str_int_def str_nat.simps)
  have ex_m: "Marker_str \<lparr>mtype = FUNCTION, mvalue = ''foo'', moffset = Some 2\<rparr>
       = ''function '' @ [squote] @ ''foo'' @ [squote] @ '' at offset 2''"
    by (simp add: Marker_str_def two)
  have ex_b: "RelativeMarker_str
         \<lparr>mtype = FUNCTION, mvalue = ''foo'', moffset = Some 2, qualifier = BEFORE\<rparr>
       = ''function '' @ [squote] @ ''foo'' @ [squote] @ '' at offset 2 (before)''"
    by (simp add: RelativeMarker_str_def Marker_str_def two Marker.truncate_def)
  have ex_a: "RelativeMarker_str
         \<lparr>mtype = FUNCTION, mvalue = ''foo'', moffset = Some 2, qualifier = AT\<rparr>
       = ''function '' @ [squote] @ ''foo'' @ [squote] @ '' at offset 2''"
    by (simp add: RelativeMarker_str_def Marker_str_def two Marker.truncate_def)
  from gen_m gen_r ex_m ex_b ex_a show ?thesis by blast
qed

section \<open>Files touched by a command\<close>

lemma files_to_change_single:
  "files_to_change (CreateCommand ty fp c) = [Path fp]
   \<and> files_to_change (RmFileCommand ty fp) = [Path fp]
   \<and> files_to_change (MvFileCommand ty fp tp) = [Path fp, Path tp]
   \<and> files_to_change (UpdateCommand ty tgt (ReplaceClause r) c') = [Path (target_file_path tgt)]
   \<and> files_to_change (UpdateCommand ty tgt (DeleteClause r) c') = [Path (target_file_path tgt)]
   \<and> files_to_change (UpdateCommand ty tgt (InsertClause r) c') = [Path (target_file_path tgt)]
   \<and> files_to_change (UpdateCommand ty tgt (MoveClause r ip None ri) c')
       = [Path (target_file_path tgt)]"
  by simp

text \<open>
  C6. \<open>files_to_change\<close> of an update whose action is a move with \<open>to_other_file\<close> set
  is a two-element tuple whose second element is the path of \<open>to_other_file\<close>. The code
  appends \<open>target_file\<close>, the clause object, where the declared result type
  \<open>tuple[str, ...]\<close> asks for \<open>target_file.file_path\<close>: the second element is the
  clause, never its path. (The file commands and the updates within one file behave as
  stated: \<open>files_to_change_single\<close>.)
\<close>

theorem files_to_change_cross_file_move:
  "files_to_change (UpdateCommand ty tgt (MoveClause r ip (Some other) ri) c)
     = [Path (target_file_path tgt), Clause other]
   \<and> files_to_change (UpdateCommand ty tgt (MoveClause r ip (Some other) ri) c)
     \<noteq> [Path (target_file_path tgt), Path (file_path other)]
   \<and> files_to_change cross_file_move = [Path ''a.py'', Clause \<lparr>file_path = ''b.py''\<rparr>]"
  by (simp add: cross_file_move_def)

section \<open>Decoding of strings and content blocks\<close>

lemma parse_string_escaped_quote:
  "parse_string (Some escaped_quote_token) = Inr (''it'' @ [squote] @ ''s ok'')"
  by code_simp

text \<open>
  C4. Decoding a quoted string strips exactly one layer of quotes, so a token whose
  content begins or ends with a quote character keeps it. The code calls
  \<open>strip\<close> with the two quote characters, which removes every leading and trailing
  quote: the token \<open>"'a'"\<close> decodes to \<open>a\<close>, not to \<open>'a'\<close>, and the token
  \<open>'say \'hi\''\<close> to \<open>say 'hi\<close>, without its last quote. (The multi-line branch
  of the same function removes one delimiter with \<open>removeprefix\<close> and \<open>removesuffix\<close>;
  the token \<open>'it\'s ok'\<close> decodes to \<open>it's ok\<close> as stated:
  \<open>parse_string_escaped_quote\<close>.)
\<close>

theorem parse_string_strips_every_quote:
  "parse_string (Some nested_quote_token) = Inr ''a''
   \<and> parse_string (Some escaped_end_token) = Inr (''say '' @ [squote] @ ''hi'')"
  by code_simp

lemma relative_indent_lines_result:
  "relative_indent_lines ns lines =
     (if list_ex line_complete ns
      then Inl (TypeError (''a bytes-like object is required, not '' @ str_repr ''str''))
      else Inr lines)"
  by (induction ns arbitrary: lines)
     (auto simp: line_complete_def bytes_strip_with_str_def Let_def split: option.splits)

lemma parse_relative_indent_block_result:
  "parse_relative_indent_block node =
     (if list_ex line_complete (children node)
      then Inl (TypeError (''a bytes-like object is required, not '' @ str_repr ''str''))
      else Inr [])"
  by (simp add: parse_relative_indent_block_def relative_indent_lines_result str_join_def)

text \<open>
  C5. Decoding a relative-indent block emits, for each line with prefix \<open>@N:\<close> and
  content, \<open>4 * N\<close> spaces and the content, joined by newlines; the lines
  \<open>@0:def foo():\<close> and \<open>@1:pass\<close> decode to \<open>def foo():\<close>, a newline, four spaces and
  \<open>pass\<close>. The code strips the prefix's text, a \<open>bytes\<close> value, with the \<open>str\<close>
  argument \<open>'@:'\<close>, which raises \<open>TypeError\<close> at the first line that has a prefix and
  content: the block of the two lines is not decoded
  (\<open>parse_relative_indent_block_result\<close> gives the result for every block).
\<close>

theorem relative_indent_block_raises:
  "parse_relative_indent_block indent_block_example
     = Inl (TypeError (''a bytes-like object is required, not '' @ str_repr ''str''))"
  by code_simp

section \<open>The diagnostic collector\<close>


lemma collect_none:
  "\<not> contains_error n \<Longrightarrow> collect_parse_errors n code k p = []"
proof (induction n arbitrary: p)
  case (Node ty nm he sp sb eb tx cs)
  then have "\<And>c. c \<in> set cs \<Longrightarrow> collect_parse_errors c code k (Some (Node ty nm he sp sb eb tx cs)) = []"
    by (auto simp: list_ex_iff)
  with Node.prems show ?case
    by (subst collect_parse_errors.simps) (auto)
qed



lemma collect_fields:
  "\<forall>d \<in> set (collect_parse_errors n code k p).
     command_ordinal d = k \<and> 1 \<le> line d \<and> 1 \<le> column d"
proof (induction n arbitrary: p)
  case (Node ty nm he sp sb eb tx cs)
  then show ?case
    by (subst collect_parse_errors.simps) (auto simp: error_of_def Let_def)
qed

section \<open>The loop over the top-level nodes\<close>

lemma parse_string_comment:
  "casefold (ntype n) = ''comment'' \<Longrightarrow> parse_string (Some n) = Inr (ntext n)"
  by (simp add: parse_string_def attr_of_def)

lemma comment_not_command: "casefold (ntype ch) = ''comment'' \<Longrightarrow> \<not> is_command_node ch"
  by (simp add: is_command_node_def endswith_def)

lemma parse_script_loop_Cons:
  "parse_script_loop (ch # rest) cmds k out =
     (if \<not> is_command_node ch
      then parse_script_loop rest cmds k (out @ comment_output ch)
      else (case parse_command ch of
              Inl e \<Rightarrow> Inl (e, k, out)
            | Inr c \<Rightarrow> parse_script_loop rest (cmds @ [c]) (k + 1) out))"
proof (cases "casefold (ntype ch) = ''comment''")
  case True
  then show ?thesis
    using comment_not_command[OF True]
    by (simp add: parse_string_comment comment_output_def is_command_node_def)
next
  case False
  then show ?thesis
    by (simp add: comment_output_def is_command_node_def)
qed

lemma parse_script_loop_append:
  "parse_script_loop (xs @ ys) cmds k out =
     (case parse_script_loop xs cmds k out of
        Inl x \<Rightarrow> Inl x
      | Inr (cmds', k', out') \<Rightarrow> parse_script_loop ys cmds' k' out')"
proof (induction xs arbitrary: cmds k out)
  case Nil
  show ?case by simp
next
  case (Cons x xs)
  show ?case
    unfolding append_Cons parse_script_loop_Cons
    by (simp add: Cons.IH split: sum.splits)
qed

lemma parse_script_loop_success:
  "(\<forall>ch \<in> set ns. is_command_node ch \<longrightarrow> (\<exists>c. parse_command ch = Inr c)) \<Longrightarrow>
   parse_script_loop ns cmds k out =
     Inr (cmds @ map (\<lambda>ch. projr (parse_command ch)) (filter is_command_node ns),
          k + int (length (filter is_command_node ns)),
          out @ concat (map comment_output ns))"
proof (induction ns arbitrary: cmds k out)
  case Nil
  show ?case by simp
next
  case (Cons x xs)
  then have IH: "\<And>cmds k out. parse_script_loop xs cmds k out =
     Inr (cmds @ map (\<lambda>ch. projr (parse_command ch)) (filter is_command_node xs),
          k + int (length (filter is_command_node xs)),
          out @ concat (map comment_output xs))"
    by simp
  show ?case
  proof (cases "is_command_node x")
    case True
    with Cons.prems obtain c where c: "parse_command x = Inr c" by auto
    have "comment_output x = []"
      using True comment_not_command by (auto simp: comment_output_def)
    with True c show ?thesis
      unfolding parse_script_loop_Cons by (simp add: IH)
  next
    case False
    then show ?thesis
      unfolding parse_script_loop_Cons by (simp add: IH)
  qed
qed

section \<open>The facade\<close>

lemma parse_script_cases:
  "parse_script parser code_text =
     (case parse_script_try parser code_text of
        Inl (e, k, out) \<Rightarrow>
          ([], [\<lparr>command_ordinal = k, message = exn_str e, line = 0, column = 0,
                 suggestion = ''Revise your CEDARScript syntax.''\<rparr>])
      | Inr (r, out) \<Rightarrow> r)"
  by (simp add: parse_script_def run_parse_script_def
           split: sum.splits prod.splits)

lemma parse_script_try_result:
  "parse_script_try parser code_text = Inr ((cmds, errs), out) \<Longrightarrow> cmds = [] \<or> errs = []"
  by (auto simp: parse_script_try_def Let_def split: sum.splits if_splits prod.splits)

text \<open>
  C1. For every script text, \<open>parse_script\<close> returns a pair of a command list and a
  diagnostic list of which at most one is non-empty. An exception raised anywhere in
  the body of the \<open>try\<close> block, by the engine or while commands are built, is turned
  into exactly one diagnostic with line 0, column 0, the suggestion
  \<open>Revise your CEDARScript syntax.\<close>, the exception's description as message and
  the ordinal reached when it was raised (1 when the engine raises); \<open>parse_script\<close>
  itself returns in every case.
\<close>

theorem parse_script_contract:
  "(fst (parse_script parser code_text) = [] \<or> snd (parse_script parser code_text) = [])
   \<and> (\<forall>e k out. parse_script_try parser code_text = Inl (e, k, out) \<longrightarrow>
          parse_script parser code_text
            = ([], [\<lparr>command_ordinal = k, message = exn_str e, line = 0, column = 0,
                     suggestion = ''Revise your CEDARScript syntax.''\<rparr>]))
   \<and> (\<forall>e. parser code_text = Inl e \<longrightarrow>
          parse_script parser code_text
            = ([], [\<lparr>command_ordinal = 1, message = exn_str e, line = 0, column = 0,
                     suggestion = ''Revise your CEDARScript syntax.''\<rparr>]))
   \<and> (\<forall>root e k out.
          parser code_text = Inr root
          \<and> collect_parse_errors root code_text 1 None = []
          \<and> parse_script_loop (children root) [] 1 [] = Inl (e, k, out) \<longrightarrow>
          parse_script parser code_text
            = ([], [\<lparr>command_ordinal = k, message = exn_str e, line = 0, column = 0,
                     suggestion = ''Revise your CEDARScript syntax.''\<rparr>]))"
proof -
  have one: "fst (parse_script parser code_text) = [] \<or> snd (parse_script parser code_text) = []"
  proof (cases "parse_script_try parser code_text")
    case (Inl x)
    then show ?thesis by (cases x) (simp add: parse_script_cases)
  next
    case (Inr y)
    obtain cmds errs out where y: "y = ((cmds, errs), out)" by (metis prod.exhaust)
    with Inr parse_script_try_result[of parser code_text cmds errs out] show ?thesis
      by (simp add: parse_script_cases)
  qed
  have two: "\<forall>e k out. parse_script_try parser code_text = Inl (e, k, out) \<longrightarrow>
          parse_script parser code_text
            = ([], [\<lparr>command_ordinal = k, message = exn_str e, line = 0, column = 0,
                     suggestion = ''Revise your CEDARScript syntax.''\<rparr>])"
    by (simp add: parse_script_cases)
  have three: "\<forall>e. parser code_text = Inl e \<longrightarrow>
          parse_script parser code_text
            = ([], [\<lparr>command_ordinal = 1, message = exn_str e, line = 0, column = 0,
                     suggestion = ''Revise your CEDARScript syntax.''\<rparr>])"
    by (simp add: parse_script_cases parse_script_try_def)
  have four: "\<forall>root e k out.
          parser code_text = Inr root
          \<and> collect_parse_errors root code_text 1 None = []
          \<and> parse_script_loop (children root) [] 1 [] = Inl (e, k, out) \<longrightarrow>
          parse_script parser code_text
            = ([], [\<lparr>command_ordinal = k, message = exn_str e, line = 0, column = 0,
                     suggestion = ''Revise your CEDARScript syntax.''\<rparr>])"
    by (simp add: parse_script_cases parse_script_try_def)
  from one two three four show ?thesis by blast
qed

theorem parse_script_contract_witness:
  "parse_script failing_engine ''RM FILE''
     = ([], [\<lparr>command_ordinal = 1, message = ''parse failed'', line = 0, column = 0,
              suggestion = ''Revise your CEDARScript syntax.''\<rparr>])
   \<and> parse_script (engine_of (script_root [rm_file_node ''a.py'', unknown_command_node])) ''RM FILE''
     = ([], [\<lparr>command_ordinal = 2, message = ''Unexpected command type: select_command'',
              line = 0, column = 0, suggestion = ''Revise your CEDARScript syntax.''\<rparr>])"
proof -
  let ?root = "script_root [rm_file_node ''a.py'', unknown_command_node]"
  have a: "failing_engine ''RM FILE'' = Inl (EngineError ''parse failed'')"
    by (simp add: failing_engine_def)
  have a': "parse_script_try failing_engine ''RM FILE'' = Inl (EngineError ''parse failed'', 1, [])"
    by (simp add: parse_script_try_def failing_engine_def)
  have b: "engine_of ?root ''RM FILE'' = Inr ?root"
    by (simp add: engine_of_def)
  have c: "collect_parse_errors ?root ''RM FILE'' 1 None = []"
    by code_simp
  have d: "parse_script_loop (children ?root) [] 1 []
             = Inl (ValueError ''Unexpected command type: select_command'', 2, [])"
    by code_simp
  from parse_script_contract[of failing_engine "''RM FILE''"] a a'
  have first: "parse_script failing_engine ''RM FILE''
     = ([], [\<lparr>command_ordinal = 1, message = ''parse failed'', line = 0, column = 0,
              suggestion = ''Revise your CEDARScript syntax.''\<rparr>])"
    by simp
  from parse_script_contract[of "engine_of ?root" "''RM FILE''"] b c d
  have second: "parse_script (engine_of ?root) ''RM FILE''
     = ([], [\<lparr>command_ordinal = 2, message = ''Unexpected command type: select_command'',
              line = 0, column = 0, suggestion = ''Revise your CEDARScript syntax.''\<rparr>])"
    by simp
  from first second show ?thesis by simp
qed




text \<open>
  C10. Every diagnostic of the collector carries the ordinal it was called with, and
  \<open>parse_script\<close> calls it once with ordinal 1 before any command is counted: the
  structural diagnostics \<open>parse_script\<close> returns all have \<open>command_ordinal = 1\<close>,
  however many top-level command nodes stand before the error node (two, in the
  example).
\<close>

theorem collector_ordinal_is_one:
  assumes "parser code_text = Inr root"
    and "collect_parse_errors root code_text 1 None \<noteq> []"
  shows "parse_script parser code_text = ([], collect_parse_errors root code_text 1 None)
    \<and> (\<forall>d \<in> set (snd (parse_script parser code_text)). command_ordinal d = 1)
    \<and> (\<forall>d \<in> set (collect_parse_errors n code k p). command_ordinal d = k)"
proof -
  from assms have res: "parse_script parser code_text
      = ([], collect_parse_errors root code_text 1 None)"
    by (simp add: parse_script_cases parse_script_try_def)
  moreover have "\<forall>d \<in> set (collect_parse_errors root code_text 1 None). command_ordinal d = 1"
    using collect_fields[of root code_text 1 None] by blast
  moreover have "\<forall>d \<in> set (collect_parse_errors n code k p). command_ordinal d = k"
    using collect_fields[of n code k p] by blast
  ultimately show ?thesis by simp
qed

theorem collector_ordinal_is_one_witness:
  "length (filter is_command_node (children error_root)) = 2
   \<and> map command_ordinal (snd (parse_script (engine_of error_root) ''RM x ?!'')) = [1]"
proof -
  have a: "engine_of error_root ''RM x ?!'' = Inr error_root"
    by (simp add: engine_of_def)
  have b: "collect_parse_errors error_root ''RM x ?!'' 1 None \<noteq> []" by code_simp
  have c: "length (filter is_command_node (children error_root)) = 2" by code_simp
  have d: "length (collect_parse_errors error_root ''RM x ?!'' 1 None) = 1" by code_simp
  from collector_ordinal_is_one[of "engine_of error_root" "''RM x ?!''" error_root, OF a b]
  have e: "parse_script (engine_of error_root) ''RM x ?!''
             = ([], collect_parse_errors error_root ''RM x ?!'' 1 None)"
    and f: "\<forall>d \<in> set (snd (parse_script (engine_of error_root) ''RM x ?!'')).
              command_ordinal d = 1"
    by blast+
  from d obtain x where x: "collect_parse_errors error_root ''RM x ?!'' 1 None = [x]"
    by (cases "collect_parse_errors error_root ''RM x ?!'' 1 None") auto
  with e f have "command_ordinal x = 1" by simp
  with e x c show ?thesis by simp
qed

text \<open>
  Where no error node is in the tree and \<open>parse_command\<close> returns a command on every
  top-level command node, \<open>parse_script\<close> returns these commands in order and no
  diagnostic; after any initial part of the root's children the ordinal stands at 1
  plus the number of command nodes in it, and a comment node only prints its line.
\<close>

lemma parse_script_when_all_built:
  assumes "parser code_text = Inr root"
    and "\<not> contains_error root"
    and "\<forall>ch \<in> set (children root). is_command_node ch \<longrightarrow> (\<exists>c. parse_command ch = Inr c)"
  shows "parse_script parser code_text
           = (map (\<lambda>ch. projr (parse_command ch)) (filter is_command_node (children root)), [])
    \<and> length (fst (parse_script parser code_text))
           = length (filter is_command_node (children root))
    \<and> snd (parse_script parser code_text) = []
    \<and> (\<forall>pre post. children root = pre @ post \<longrightarrow>
          (\<exists>cmds out. parse_script_loop pre [] 1 []
                         = Inr (cmds, 1 + int (length (filter is_command_node pre)), out)
                       \<and> length cmds = length (filter is_command_node pre)))
    \<and> (\<forall>ch rest cmds k out. casefold (ntype ch) = ''comment'' \<longrightarrow>
          parse_script_loop (ch # rest) cmds k out
            = parse_script_loop rest cmds k (out @ comment_output ch))"
proof -
  have none: "collect_parse_errors root code_text 1 None = []"
    using assms(2) by (rule collect_none)
  have loop: "parse_script_loop (children root) [] 1 [] =
     Inr ([] @ map (\<lambda>ch. projr (parse_command ch)) (filter is_command_node (children root)),
          1 + int (length (filter is_command_node (children root))),
          [] @ concat (map comment_output (children root)))"
    using assms(3) by (rule parse_script_loop_success)
  have res: "parse_script parser code_text
           = (map (\<lambda>ch. projr (parse_command ch)) (filter is_command_node (children root)), [])"
    using assms(1) none loop by (simp add: parse_script_cases parse_script_try_def)
  have prefixes: "\<forall>pre post. children root = pre @ post \<longrightarrow>
          (\<exists>cmds out. parse_script_loop pre [] 1 []
                         = Inr (cmds, 1 + int (length (filter is_command_node pre)), out)
                       \<and> length cmds = length (filter is_command_node pre))"
  proof (intro allI impI)
    fix pre post
    assume split: "children root = pre @ post"
    with assms(3) have "\<forall>ch \<in> set pre. is_command_node ch \<longrightarrow> (\<exists>c. parse_command ch = Inr c)"
      by simp
    then have "parse_script_loop pre [] 1 [] =
       Inr ([] @ map (\<lambda>ch. projr (parse_command ch)) (filter is_command_node pre),
            1 + int (length (filter is_command_node pre)),
            [] @ concat (map comment_output pre))"
      by (rule parse_script_loop_success)
    then show "\<exists>cmds out. parse_script_loop pre [] 1 []
                         = Inr (cmds, 1 + int (length (filter is_command_node pre)), out)
                       \<and> length cmds = length (filter is_command_node pre)"
      by simp
  qed
  have comments: "\<forall>ch rest cmds k out. casefold (ntype ch) = ''comment'' \<longrightarrow>
          parse_script_loop (ch # rest) cmds k out
            = parse_script_loop rest cmds k (out @ comment_output ch)"
    using comment_not_command
    by (simp add: parse_script_loop_Cons del: parse_script_loop.simps)
  from res prefixes comments show ?thesis by simp
qed

text \<open>
  C3. For every script whose tree holds only well-formed command nodes, \<open>parse_script\<close>
  returns one command for each top-level command node and no diagnostic. The tree of
  \<open>CREATE FILE "a.py" WITH CONTENT\<close> and a relative-indent block has no error node
  and one top-level command node, and the code returns no command and one diagnostic:
  building the command reaches the \<open>TypeError\<close> of the block decoder (see C5).
\<close>

theorem create_with_indent_block_fails:
  "\<not> contains_error (script_root [create_indent_node])
   \<and> length (filter is_command_node (children (script_root [create_indent_node]))) = 1
   \<and> parse_script (engine_of (script_root [create_indent_node])) ''CREATE FILE''
       = ([], [\<lparr>command_ordinal = 1,
                message = ''a bytes-like object is required, not '' @ str_repr ''str'',
                line = 0, column = 0,
                suggestion = ''Revise your CEDARScript syntax.''\<rparr>])"
proof -
  have a: "\<not> contains_error (script_root [create_indent_node])" by code_simp
  have b: "length (filter is_command_node (children (script_root [create_indent_node]))) = 1"
    by code_simp
  have c: "parse_script (engine_of (script_root [create_indent_node])) ''CREATE FILE''
       = ([], [\<lparr>command_ordinal = 1,
                message = ''a bytes-like object is required, not '' @ str_repr ''str'',
                line = 0, column = 0,
                suggestion = ''Revise your CEDARScript syntax.''\<rparr>])"
    by code_simp
  from a b c show ?thesis by blast
qed

text \<open>
  C9. Command construction is atomic over the script: when the tree holds no error
  node, the top-level command nodes before some node are all built and building that
  node raises, \<open>parse_script\<close> drops the commands built so far and returns no command
  and the single synthetic diagnostic whose ordinal is the position of that node
  among the command nodes. A node whose type ends with \<open>_command\<close> and is none of the
  four known kinds makes \<open>parse_command\<close> raise.
\<close>

theorem command_building_is_atomic:
  assumes "parser code_text = Inr root"
    and "\<not> contains_error root"
    and "children root = pre @ bad # post"
    and "\<forall>ch \<in> set pre. is_command_node ch \<longrightarrow> (\<exists>c. parse_command ch = Inr c)"
    and "is_command_node bad"
    and "parse_command bad = Inl e"
  shows "parse_script parser code_text
           = ([], [\<lparr>command_ordinal = 1 + int (length (filter is_command_node pre)),
                    message = exn_str e, line = 0, column = 0,
                    suggestion = ''Revise your CEDARScript syntax.''\<rparr>])
    \<and> (\<forall>n. ntype n \<notin> set [''create_command'', ''rm_file_command'', ''mv_file_command'',
                             ''update_command''] \<longrightarrow>
          parse_command n = Inl (ValueError (''Unexpected command type: '' @ ntype n)))"
proof -
  have none: "collect_parse_errors root code_text 1 None = []"
    using assms(2) by (rule collect_none)
  have pre: "parse_script_loop pre [] 1 [] =
       Inr ([] @ map (\<lambda>ch. projr (parse_command ch)) (filter is_command_node pre),
            1 + int (length (filter is_command_node pre)),
            [] @ concat (map comment_output pre))"
    using assms(4) by (rule parse_script_loop_success)
  have "parse_script_loop (children root) [] 1 [] =
       Inl (e, 1 + int (length (filter is_command_node pre)), concat (map comment_output pre))"
    unfolding assms(3) parse_script_loop_append pre
    using assms(5,6) by (simp add: parse_script_loop_Cons del: parse_script_loop.simps)
  with assms(1) none have "parse_script parser code_text
           = ([], [\<lparr>command_ordinal = 1 + int (length (filter is_command_node pre)),
                    message = exn_str e, line = 0, column = 0,
                    suggestion = ''Revise your CEDARScript syntax.''\<rparr>])"
    by (simp add: parse_script_cases parse_script_try_def)
  moreover have "\<forall>n. ntype n \<notin> set [''create_command'', ''rm_file_command'',
                     ''mv_file_command'', ''update_command''] \<longrightarrow>
          parse_command n = Inl (ValueError (''Unexpected command type: '' @ ntype n))"
    by (simp add: parse_command_def)
  ultimately show ?thesis by blast
qed

theorem command_building_is_atomic_witness:
  "parse_script
     (engine_of (script_root [rm_file_node ''a.py'', comment_node, rm_file_node ''b.py'',
                              unknown_command_node, rm_file_node ''c.py'']))
     ''RM FILE''
     = ([], [\<lparr>command_ordinal = 3, message = ''Unexpected command type: select_command'',
              line = 0, column = 0, suggestion = ''Revise your CEDARScript syntax.''\<rparr>])"
proof -
  let ?pre = "[rm_file_node ''a.py'', comment_node, rm_file_node ''b.py'']"
  let ?root = "script_root (?pre @ unknown_command_node # [rm_file_node ''c.py''])"
  have a: "engine_of ?root ''RM FILE'' = Inr ?root"
    by (simp add: engine_of_def)
  have b: "\<not> contains_error ?root" by code_simp
  have c: "children ?root = ?pre @ unknown_command_node # [rm_file_node ''c.py'']"
    by (simp add: script_root_def)
  have rm_a: "parse_command (rm_file_node ''a.py'') = Inr (RmFileCommand ''rm_file'' ''a.py'')"
    by code_simp
  have rm_b: "parse_command (rm_file_node ''b.py'') = Inr (RmFileCommand ''rm_file'' ''b.py'')"
    by code_simp
  have cm: "\<not> is_command_node comment_node" by code_simp
  have ra: "is_command_node (rm_file_node ''a.py'')" by code_simp
  have rb: "is_command_node (rm_file_node ''b.py'')" by code_simp
  have d: "\<forall>ch \<in> set ?pre. is_command_node ch \<longrightarrow> (\<exists>c. parse_command ch = Inr c)"
    using rm_a rm_b cm by simp
  have e: "is_command_node unknown_command_node" by code_simp
  have f: "parse_command unknown_command_node
             = Inl (ValueError ''Unexpected command type: select_command'')"
    by code_simp
  have n: "1 + int (length (filter is_command_node ?pre)) = 3"
    using cm ra rb by simp
  from command_building_is_atomic[of "engine_of ?root" "''RM FILE''" ?root ?pre
          unknown_command_node "[rm_file_node ''c.py'']"
          "ValueError ''Unexpected command type: select_command''", OF a b c d e f]
  have "parse_script (engine_of ?root) ''RM FILE''
           = ([], [\<lparr>command_ordinal = 1 + int (length (filter is_command_node ?pre)),
                    message = exn_str (ValueError ''Unexpected command type: select_command''),
                    line = 0, column = 0,
                    suggestion = ''Revise your CEDARScript syntax.''\<rparr>])"
    by blast
  then show ?thesis unfolding n by simp
qed

section \<open>The move clause\<close>









end
